theory Spec2Isabelle
  imports Complex_Main
begin

section \<open>Arrays and numbers\<close>

text \<open>
  The module \<^verbatim>\<open>ismrmrdtools/coils.py\<close> works on numpy arrays of double-precision
  real and complex numbers. An array is modelled by its \<open>shape\<close> and by the function
  from a multi-index (one natural number per axis) to the element stored there; only
  the indices inside the shape are ever read by the program. Elements are exact real
  and complex numbers: rounding, overflow and infinities are outside the model. The one
  non-finite value the program can produce from finite input in exact arithmetic, the
  \<open>nan\<close> of \<open>0/0\<close> and of the square root of a negative number, is written \<open>None\<close>.
\<close>

record 'a ndarray =
  shape :: "nat list"
  elems :: "nat list \<Rightarrow> 'a"

definition ndim :: "'a ndarray \<Rightarrow> nat" where
  "ndim a = length (shape a)"

text \<open>\<^verbatim>\<open>np.zeros(shape)\<close>.\<close>

definition np_zeros :: "nat list \<Rightarrow> 'a::zero ndarray" where
  "np_zeros s = \<lparr>shape = s, elems = (\<lambda>idx. 0)\<rparr>"

text \<open>\<^verbatim>\<open>a.real\<close>, \<^verbatim>\<open>a.imag\<close>, \<^verbatim>\<open>np.conj(a)\<close>, \<^verbatim>\<open>a * b\<close> (element by element) and
  \<^verbatim>\<open>t_real + 1j*t_imag\<close>.\<close>

definition np_real :: "complex ndarray \<Rightarrow> real ndarray" where
  "np_real a = \<lparr>shape = shape a, elems = (\<lambda>idx. Re (elems a idx))\<rparr>"

definition np_imag :: "complex ndarray \<Rightarrow> real ndarray" where
  "np_imag a = \<lparr>shape = shape a, elems = (\<lambda>idx. Im (elems a idx))\<rparr>"

definition np_conj :: "complex ndarray \<Rightarrow> complex ndarray" where
  "np_conj a = \<lparr>shape = shape a, elems = (\<lambda>idx. cnj (elems a idx))\<rparr>"

definition np_multiply :: "complex ndarray \<Rightarrow> complex ndarray \<Rightarrow> complex ndarray" where
  "np_multiply a b = \<lparr>shape = shape a, elems = (\<lambda>idx. elems a idx * elems b idx)\<rparr>"

definition np_complex :: "real ndarray \<Rightarrow> real ndarray \<Rightarrow> complex ndarray" where
  "np_complex re im =
     \<lparr>shape = shape re,
      elems = (\<lambda>idx. complex_of_real (elems re idx) + \<i> * complex_of_real (elems im idx))\<rparr>"

section \<open>The box filter of scipy.ndimage\<close>

text \<open>
  \<^verbatim>\<open>ndimage.filters.uniform_filter(input, size, output)\<close> is library code. With its
  default \<^verbatim>\<open>mode='reflect'\<close> and \<^verbatim>\<open>origin=0\<close> it runs a one-dimensional running mean
  of \<open>size\<close> samples along every axis in turn, axis 0 first, each pass reading the
  result of the pass before. The window of output sample \<open>i\<close> covers the positions
  \<open>i - size div 2, \<dots>, i - size div 2 + size - 1\<close>; a position outside the line is
  read by reflection about the edge of the line (\<open>d c b a | a b c d | d c b a\<close>).
  Axes are only filtered when \<open>size > 1\<close>; otherwise the input is copied.
\<close>

definition reflect_index :: "nat \<Rightarrow> int \<Rightarrow> nat" where
  "reflect_index n i =
     (let m = i mod (2 * int n)
      in nat (if m < int n then m else 2 * int n - 1 - m))"

definition uniform_filter1d :: "real ndarray \<Rightarrow> nat \<Rightarrow> nat \<Rightarrow> real ndarray" where
  "uniform_filter1d inp sz axis =
     inp\<lparr>elems := (\<lambda>idx.
        (\<Sum>j<sz. elems inp
            (idx[axis := reflect_index (shape inp ! axis)
                           (int (idx ! axis) + int j - int (sz div 2))]))
        / real sz)\<rparr>"

definition uniform_filter :: "real ndarray \<Rightarrow> int \<Rightarrow> real ndarray" where
  "uniform_filter inp sz =
     (if sz > 1
      then fold (\<lambda>axis inp. uniform_filter1d inp (nat sz) axis) [0..<ndim inp] inp
      else inp)"

section \<open>smooth\<close>

text \<open>
  \<^verbatim>\<open>
  def smooth(img, box=5):
      t_real = np.zeros(img.shape)
      t_imag = np.zeros(img.shape)
      ndimage.filters.uniform_filter(img.real,size=box,output=t_real)
      ndimage.filters.uniform_filter(img.imag,size=box,output=t_imag)
      simg = t_real + 1j*t_imag
      return simg
  \<close>
\<close>

definition smooth :: "complex ndarray \<Rightarrow> int \<Rightarrow> complex ndarray" where
  "smooth img box =
     (let t_real = uniform_filter (np_real img) box;
          t_imag = uniform_filter (np_imag img) box
      in np_complex t_real t_imag)"

section \<open>Errors\<close>

text \<open>
  The exceptions the module can raise. \<open>AssertionError\<close> is the failed \<^verbatim>\<open>assert\<close> of
  \<open>calculate_csm_walsh\<close>, \<open>ZeroDivisionError\<close> and \<open>IndexError\<close> come from Python's own
  arithmetic and tuple indexing, \<open>ValueError\<close> from an impossible \<^verbatim>\<open>reshape\<close>, and
  \<open>LinAlgError\<close> is what \<^verbatim>\<open>np.linalg.cholesky\<close> raises for a matrix that is not
  positive definite and \<^verbatim>\<open>np.linalg.inv\<close> for a singular one.
\<close>

datatype py_error = AssertionError | ZeroDivisionError | IndexError | ValueError | LinAlgError

section \<open>Slices and loops\<close>

text \<open>\<^verbatim>\<open>img[p,:,:]\<close>, \<^verbatim>\<open>Rs[p,q,:,:]\<close> read and written, and \<^verbatim>\<open>Rs[:,:,y,x]\<close>.\<close>

definition coil_image :: "'a ndarray \<Rightarrow> nat \<Rightarrow> 'a ndarray" where
  "coil_image img p = \<lparr>shape = tl (shape img), elems = (\<lambda>idx. elems img (p # idx))\<rparr>"

definition get_plane :: "'a ndarray \<Rightarrow> nat \<Rightarrow> nat \<Rightarrow> 'a ndarray" where
  "get_plane a p q = \<lparr>shape = drop 2 (shape a), elems = (\<lambda>idx. elems a (p # q # idx))\<rparr>"

definition set_plane :: "'a ndarray \<Rightarrow> nat \<Rightarrow> nat \<Rightarrow> 'a ndarray \<Rightarrow> 'a ndarray" where
  "set_plane a p q b =
     a\<lparr>elems := (\<lambda>idx. case idx of
                   p' # q' # rest \<Rightarrow> if p' = p \<and> q' = q then elems b rest else elems a idx
                 | _ \<Rightarrow> elems a idx)\<rparr>"

definition local_matrix :: "complex ndarray \<Rightarrow> nat \<Rightarrow> nat \<Rightarrow> complex ndarray" where
  "local_matrix Rs y x =
     \<lparr>shape = take 2 (shape Rs), elems = (\<lambda>idx. elems Rs (idx @ [y, x]))\<rparr>"

text \<open>\<^verbatim>\<open>rho[y,x] = lam\<close> and \<^verbatim>\<open>csm[:,y,x] = v\<close>. The vector \<open>v\<close> is \<open>None\<close> when every
  one of its components is \<open>nan\<close>.\<close>

definition set_item :: "'a ndarray \<Rightarrow> nat list \<Rightarrow> 'a \<Rightarrow> 'a ndarray" where
  "set_item a idx v = a\<lparr>elems := (elems a)(idx := v)\<rparr>"

definition set_column ::
  "complex option ndarray \<Rightarrow> nat \<Rightarrow> nat \<Rightarrow> complex ndarray option \<Rightarrow> complex option ndarray" where
  "set_column csm y x v =
     csm\<lparr>elems := (\<lambda>idx. case idx of
                     [c, y', x'] \<Rightarrow>
                       if y' = y \<and> x' = x then map_option (\<lambda>w. elems w [c]) v
                       else elems csm idx
                   | _ \<Rightarrow> elems csm idx)\<rparr>"

text \<open>The two nested \<^verbatim>\<open>for i in range(n): for j in range(m): body\<close> loops of the source,
  threading the arrays they update.\<close>

definition for_range2 :: "nat \<Rightarrow> nat \<Rightarrow> (nat \<Rightarrow> nat \<Rightarrow> 's \<Rightarrow> 's) \<Rightarrow> 's \<Rightarrow> 's" where
  "for_range2 n m body s = fold (\<lambda>i s. fold (\<lambda>j s. body i j s) [0..<m] s) [0..<n] s"

section \<open>The power method at one pixel\<close>

text \<open>
  \<^verbatim>\<open>np.sum(R,axis=0)\<close>, \<^verbatim>\<open>np.dot(R,v)\<close>, \<^verbatim>\<open>np.linalg.norm(v)\<close> and \<^verbatim>\<open>v/lam\<close> for a
  square matrix \<open>R\<close> and a vector \<open>v\<close>.
\<close>

definition np_sum_axis0 :: "complex ndarray \<Rightarrow> complex ndarray" where
  "np_sum_axis0 R =
     \<lparr>shape = tl (shape R), elems = (\<lambda>idx. \<Sum>p<shape R ! 0. elems R (p # idx))\<rparr>"

definition np_dot :: "complex ndarray \<Rightarrow> complex ndarray \<Rightarrow> complex ndarray" where
  "np_dot R v =
     \<lparr>shape = [shape R ! 0],
      elems = (\<lambda>idx. \<Sum>q<shape R ! 1. elems R (idx @ [q]) * elems v [q])\<rparr>"

definition np_norm :: "complex ndarray \<Rightarrow> real" where
  "np_norm v = sqrt (\<Sum>i<shape v ! 0. (cmod (elems v [i]))\<^sup>2)"

definition np_divide :: "complex ndarray \<Rightarrow> real \<Rightarrow> complex ndarray" where
  "np_divide v lam = v\<lparr>elems := (\<lambda>idx. elems v idx / complex_of_real lam)\<rparr>"

text \<open>
  \<^verbatim>\<open>
  lam = np.linalg.norm(v)
  v = v/lam
  \<close>
  The norm is zero exactly when every component of \<open>v\<close> is zero, and then every
  component of \<open>v/lam\<close> is the \<open>nan\<close> of \<open>0/0\<close> (a vector without components stays
  as it is). A vector of \<open>nan\<close> stays one under \<^verbatim>\<open>np.dot\<close>, and its norm is \<open>nan\<close>.
\<close>

type_synonym eig_state = "complex ndarray option \<times> real option"

definition norm_and_divide :: "complex ndarray \<Rightarrow> eig_state" where
  "norm_and_divide v =
     (let lam = np_norm v
      in (if lam = 0 \<and> 0 < shape v ! 0 then None else Some (np_divide v lam), Some lam))"

fun power_step :: "complex ndarray \<Rightarrow> eig_state \<Rightarrow> eig_state" where
  "power_step R (None, lam) = (None, None)"
| "power_step R (Some v, lam) = norm_and_divide (np_dot R v)"

definition power_method :: "complex ndarray \<Rightarrow> int \<Rightarrow> eig_state" where
  "power_method R niter =
     fold (\<lambda>iter s. power_step R s) [0..<nat niter] (norm_and_divide (np_sum_axis0 R))"

section \<open>calculate_csm_walsh\<close>

text \<open>
  \<^verbatim>\<open>
  def calculate_csm_walsh(img, smoothing=5, niter=3):
      assert img.ndim == 3, "Coil sensitivity map must have exactly 3 dimensions"
      ncoils = img.shape[0]
      ny = img.shape[1]
      nx = img.shape[2]
      # Compute the sample covariance pointwise
      Rs = np.zeros((ncoils,ncoils,ny,nx),dtype=img.dtype)
      for p in range(ncoils):
          for q in range(ncoils):
              Rs[p,q,:,:] = img[p,:,:] * np.conj(img[q,:,:])
      # Smooth the covariance
      for p in range(ncoils):
          for q in range(ncoils):
              Rs[p,q] = smooth(Rs[p,q,:,:], smoothing)
      # At each point in the image, find the dominant eigenvector
      # and corresponding eigenvalue of the signal covariance
      # matrix using the power method
      rho = np.zeros((ny, nx))
      csm = np.zeros((ncoils, ny, nx),dtype=img.dtype)
      for y in range(ny):
          for x in range(nx):
              R = Rs[:,:,y,x]
              v = np.sum(R,axis=0)
              lam = np.linalg.norm(v)
              v = v/lam
              for iter in range(niter):
                  v = np.dot(R,v)
                  lam = np.linalg.norm(v)
                  v = v/lam
              rho[y,x] = lam
              csm[:,y,x] = v
      return (csm, rho)
  \<close>
  The covariance field after the first pair of loops is \<open>raw_covariance\<close>, after the
  second \<open>smoothed_covariance\<close>. The two result arrays hold \<open>Some\<close> of a number, or
  \<open>None\<close> for \<open>nan\<close>.
\<close>

definition raw_covariance :: "complex ndarray \<Rightarrow> complex ndarray" where
  "raw_covariance img =
     (let ncoils = shape img ! 0; ny = shape img ! 1; nx = shape img ! 2
      in for_range2 ncoils ncoils
           (\<lambda>p q Rs. set_plane Rs p q
              (np_multiply (coil_image img p) (np_conj (coil_image img q))))
           (np_zeros [ncoils, ncoils, ny, nx]))"

definition smoothed_covariance :: "complex ndarray \<Rightarrow> int \<Rightarrow> complex ndarray" where
  "smoothed_covariance img smoothing =
     (let ncoils = shape img ! 0
      in for_range2 ncoils ncoils
           (\<lambda>p q Rs. set_plane Rs p q (smooth (get_plane Rs p q) smoothing))
           (raw_covariance img))"

definition finite_zeros :: "nat list \<Rightarrow> 'a::zero option ndarray" where
  "finite_zeros s = \<lparr>shape = s, elems = (\<lambda>idx. Some 0)\<rparr>"

definition calculate_csm_walsh ::
  "complex ndarray \<Rightarrow> int \<Rightarrow> int \<Rightarrow>
     py_error + (complex option ndarray \<times> real option ndarray)" where
  "calculate_csm_walsh img smoothing niter =
     (if ndim img \<noteq> 3 then Inl AssertionError
      else
        let ncoils = shape img ! 0; ny = shape img ! 1; nx = shape img ! 2;
            Rs = smoothed_covariance img smoothing;
            rho = finite_zeros [ny, nx];
            csm = finite_zeros [ncoils, ny, nx]
        in Inr (for_range2 ny nx
                  (\<lambda>y x (csm, rho).
                     let R = local_matrix Rs y x;
                         (v, lam) = power_method R niter
                     in (set_column csm y x v, set_item rho [y, x] lam))
                  (csm, rho)))"

section \<open>Auxiliary notions for the proofs\<close>

text \<open>The cell of the two result arrays that belongs to pixel \<open>(y, x)\<close>, and the
  element-wise negative of a real array.\<close>

definition pixel_cell ::
  "complex option ndarray \<times> real option ndarray \<Rightarrow> nat \<Rightarrow> nat \<Rightarrow>
     (nat \<Rightarrow> complex option) \<times> real option" where
  "pixel_cell s y x = ((\<lambda>c. elems (fst s) [c, y, x]), elems (snd s) [y, x])"

definition np_negative :: "real ndarray \<Rightarrow> real ndarray" where
  "np_negative a = \<lparr>shape = shape a, elems = (\<lambda>idx. - elems a idx)\<rparr>"

section \<open>The two-coil scenario\<close>

text \<open>
  The stack of the concrete scenario: two coils, 4x4 pixels, coil 0 equal to \<open>1 + 0j\<close> and
  coil 1 equal to \<open>0 + 1j\<close> at every pixel. \<open>coil_value\<close> names the value of a coil.
\<close>

definition coil_pair_image :: "complex ndarray" where
  "coil_pair_image =
     \<lparr>shape = [2, 4, 4],
      elems = (\<lambda>idx. case idx of [] \<Rightarrow> 0 | c # rest \<Rightarrow> if c = 0 then 1 else \<i>)\<rparr>"

definition coil_value :: "nat \<Rightarrow> complex" where
  "coil_value c = (if c = 0 then 1 else \<i>)"

section \<open>The single-coil case\<close>

text \<open>
  The squared magnitude \<open>|img|\<^sup>2\<close> of the only coil of a single-coil stack, as a real
  image; a 5x5 single-coil stack that is 1 at its centre pixel and 0 elsewhere; and the
  state of the power method of a 1x1 matrix with entry \<open>r\<close>: the unit vector \<open>[1]\<close>
  with power \<open>r\<close>.
\<close>

definition power_image :: "complex ndarray \<Rightarrow> real ndarray" where
  "power_image img =
     \<lparr>shape = [shape img ! 1, shape img ! 2],
      elems = (\<lambda>idx. (cmod (elems img (0 # idx)))\<^sup>2)\<rparr>"

definition bright_pixel_image :: "complex ndarray" where
  "bright_pixel_image =
     \<lparr>shape = [1, 5, 5], elems = (\<lambda>idx. if idx = [0, 2, 2] then 1 else 0)\<rparr>"

definition unit_state :: "real \<Rightarrow> eig_state \<Rightarrow> bool" where
  "unit_state r s \<longleftrightarrow>
     (\<exists>u. s = (Some u, Some r) \<and> shape u = [1] \<and> elems u [0] = 1)"

section \<open>Reshaping and matrices\<close>

text \<open>
  \<^verbatim>\<open>a.size\<close>, and \<^verbatim>\<open>a.reshape(new_shape)\<close> of an array in row-major order: the element at
  a multi-index of the new shape is the element of \<open>a\<close> with the same row-major offset.
  numpy raises \<open>ValueError\<close> when the two shapes do not hold the same number of elements.
\<close>

definition np_size :: "'a ndarray \<Rightarrow> nat" where
  "np_size a = prod_list (shape a)"

fun ravel_index :: "nat list \<Rightarrow> nat list \<Rightarrow> nat" where
  "ravel_index (d # ds) (i # idx) = i * prod_list ds + ravel_index ds idx"
| "ravel_index ds idx = 0"

fun unravel_index :: "nat list \<Rightarrow> nat \<Rightarrow> nat list" where
  "unravel_index [] k = []"
| "unravel_index (d # ds) k = (k div prod_list ds) # unravel_index ds (k mod prod_list ds)"

definition np_reshape :: "'a ndarray \<Rightarrow> nat list \<Rightarrow> py_error + 'a ndarray" where
  "np_reshape a new_shape =
     (if prod_list new_shape \<noteq> np_size a then Inl ValueError
      else Inr \<lparr>shape = new_shape,
                elems = (\<lambda>idx. elems a (unravel_index (shape a) (ravel_index new_shape idx)))\<rparr>)"

text \<open>
  For matrices (\<^verbatim>\<open>np.asmatrix\<close> of a two-dimensional array): the conjugate transpose
  \<^verbatim>\<open>A.H\<close>, the matrix product \<^verbatim>\<open>A*B\<close>, and the product \<^verbatim>\<open>c*A\<close> with a float.
\<close>

definition np_conj_transpose :: "complex ndarray \<Rightarrow> complex ndarray" where
  "np_conj_transpose a = \<lparr>shape = rev (shape a), elems = (\<lambda>idx. cnj (elems a (rev idx)))\<rparr>"

definition np_matmul :: "complex ndarray \<Rightarrow> complex ndarray \<Rightarrow> complex ndarray" where
  "np_matmul a b =
     \<lparr>shape = [shape a ! 0, shape b ! 1],
      elems = (\<lambda>idx. case idx of
                 [i, j] \<Rightarrow> (\<Sum>k<shape a ! 1. elems a [i, k] * elems b [k, j])
               | _ \<Rightarrow> 0)\<rparr>"

definition np_scale :: "real \<Rightarrow> complex ndarray \<Rightarrow> complex ndarray" where
  "np_scale c a = a\<lparr>elems := (\<lambda>idx. complex_of_real c * elems a idx)\<rparr>"

text \<open>
  \<^verbatim>\<open>np.sqrt(x)\<close> of a float is \<open>nan\<close> for negative \<open>x\<close>; a product with \<open>nan\<close> is \<open>nan\<close>.
  \<open>np_finite\<close> reads an array of numbers as an array that may hold \<open>nan\<close>.
\<close>

definition np_sqrt :: "real \<Rightarrow> real option" where
  "np_sqrt x = (if x < 0 then None else Some (sqrt x))"

definition np_finite :: "'a ndarray \<Rightarrow> 'a option ndarray" where
  "np_finite a = \<lparr>shape = shape a, elems = (\<lambda>idx. Some (elems a idx))\<rparr>"

definition times_float :: "complex option ndarray \<Rightarrow> real option \<Rightarrow> complex option ndarray" where
  "times_float a x =
     a\<lparr>elems := (\<lambda>idx. case (elems a idx, x) of
                     (Some z, Some r) \<Rightarrow> Some (z * complex_of_real r)
                   | _ \<Rightarrow> None)\<rparr>"

section \<open>calculate_prewhitening\<close>

text \<open>
  \<^verbatim>\<open>
  def calculate_prewhitening(noise, scale_factor=1.0):
      noise_int = noise.reshape((noise.shape[0],noise.size/noise.shape[0]))
      M = float(noise_int.shape[1])
      dmtx = (1/(M-1))*np.asmatrix(noise_int)*np.asmatrix(noise_int).H
      dmtx = np.linalg.inv(np.linalg.cholesky(dmtx));
      dmtx = dmtx*np.sqrt(2)*np.sqrt(scale_factor);
      return dmtx
  \<close>
  The module is written for Python 2, where \<^verbatim>\<open>/\<close> between the two integers
  \<^verbatim>\<open>noise.size\<close> and \<^verbatim>\<open>noise.shape[0]\<close> is integer division and raises
  \<open>ZeroDivisionError\<close> for a zero divisor; \<^verbatim>\<open>noise.shape[0]\<close> of an array without axes
  raises \<open>IndexError\<close>. \<open>M\<close> is a Python float, so \<^verbatim>\<open>1/(M-1)\<close> raises
  \<open>ZeroDivisionError\<close> when \<open>M\<close> is 1. The two routines of \<^verbatim>\<open>np.linalg\<close> are library
  code: the model takes them as the parameters \<open>linalg_cholesky\<close> and \<open>linalg_inv\<close>,
  functions that return a matrix or raise, and every statement below holds for all
  such functions.
\<close>

definition calculate_prewhitening ::
  "(complex ndarray \<Rightarrow> py_error + complex ndarray) \<Rightarrow>
   (complex ndarray \<Rightarrow> py_error + complex ndarray) \<Rightarrow>
   complex ndarray \<Rightarrow> real \<Rightarrow> py_error + complex option ndarray" where
  "calculate_prewhitening linalg_cholesky linalg_inv noise scale_factor =
     (case shape noise of
        [] \<Rightarrow> Inl IndexError
      | n0 # rest \<Rightarrow>
          if n0 = 0 then Inl ZeroDivisionError
          else
            case np_reshape noise [n0, np_size noise div n0] of
              Inl e \<Rightarrow> Inl e
            | Inr noise_int \<Rightarrow>
                let M = real (shape noise_int ! 1)
                in if M - 1 = 0 then Inl ZeroDivisionError
                   else
                     case linalg_cholesky (np_matmul (np_scale (1 / (M - 1)) noise_int)
                                      (np_conj_transpose noise_int)) of
                       Inl e \<Rightarrow> Inl e
                     | Inr L \<Rightarrow>
                         (case linalg_inv L of
                            Inl e \<Rightarrow> Inl e
                          | Inr dmtx \<Rightarrow>
                              Inr (times_float (times_float (np_finite dmtx) (np_sqrt 2))
                                     (np_sqrt scale_factor))))"

section \<open>The whitening matrix in the words of the specification\<close>

text \<open>
  The specification: reshape the noise to \<open>(coil, M)\<close>, where sample \<open>k\<close> of coil \<open>i\<close> is
  the \<open>k\<close>-th element of the trailing axes of coil \<open>i\<close>; form the sample covariance
  \<open>C = (1/(M-1)) \<cdot> N \<cdot> N\<^sup>H\<close>, that is \<open>C[i,j] = (1/(M-1)) \<cdot> \<Sum>k. N[i,k] \<cdot> conj(N[j,k])\<close>;
  factor \<open>C\<close> by Cholesky decomposition and invert the lower-triangular factor; scale
  the result by \<open>sqrt(2) \<cdot> sqrt(scale_factor)\<close>.
\<close>

definition spec_sample :: "complex ndarray \<Rightarrow> nat \<Rightarrow> nat \<Rightarrow> complex" where
  "spec_sample noise i k = elems noise (i # unravel_index (tl (shape noise)) k)"

definition spec_covariance :: "complex ndarray \<Rightarrow> complex ndarray" where
  "spec_covariance noise =
     (let ncoils = hd (shape noise); M = prod_list (tl (shape noise))
      in \<lparr>shape = [ncoils, ncoils],
          elems = (\<lambda>idx. case idx of
                     [i, j] \<Rightarrow> complex_of_real (1 / (real M - 1)) *
                                 (\<Sum>k<M. spec_sample noise i k * cnj (spec_sample noise j k))
                   | _ \<Rightarrow> 0)\<rparr>)"

definition spec_prewhitening ::
  "(complex ndarray \<Rightarrow> py_error + complex ndarray) \<Rightarrow>
   (complex ndarray \<Rightarrow> py_error + complex ndarray) \<Rightarrow>
   complex ndarray \<Rightarrow> real \<Rightarrow> py_error + complex option ndarray" where
  "spec_prewhitening linalg_cholesky linalg_inv noise scale_factor =
     (case linalg_cholesky (spec_covariance noise) of
        Inl e \<Rightarrow> Inl e
      | Inr L \<Rightarrow>
          (case linalg_inv L of
             Inl e \<Rightarrow> Inl e
           | Inr Linv \<Rightarrow>
               Inr \<lparr>shape = shape Linv,
                    elems = (\<lambda>idx. map_option
                               (\<lambda>r. elems Linv idx * complex_of_real (sqrt 2 * r))
                               (np_sqrt scale_factor))\<rparr>))"

section \<open>Concrete noise arrays\<close>

text \<open>
  What \<^verbatim>\<open>np.linalg.cholesky\<close> and \<^verbatim>\<open>np.linalg.inv\<close> compute on a 1x1 matrix (the
  square root of a positive entry, the reciprocal of a non-zero entry, \<open>LinAlgError\<close>
  otherwise), to run the function on concrete input; the noise of one coil with the two
  samples 2 and 0; and the noise of two coils with one sample each.
\<close>

definition cholesky_1x1 :: "complex ndarray \<Rightarrow> py_error + complex ndarray" where
  "cholesky_1x1 a =
     (if shape a = [1, 1] \<and> 0 < Re (elems a [0, 0])
      then Inr \<lparr>shape = [1, 1], elems = (\<lambda>idx. complex_of_real (sqrt (Re (elems a [0, 0]))))\<rparr>
      else Inl LinAlgError)"

definition inv_1x1 :: "complex ndarray \<Rightarrow> py_error + complex ndarray" where
  "inv_1x1 a =
     (if shape a = [1, 1] \<and> elems a [0, 0] \<noteq> 0
      then Inr \<lparr>shape = [1, 1], elems = (\<lambda>idx. 1 / elems a [0, 0])\<rparr>
      else Inl LinAlgError)"

definition two_sample_noise :: "complex ndarray" where
  "two_sample_noise = \<lparr>shape = [1, 2], elems = (\<lambda>idx. if idx = [0, 0] then 2 else 0)\<rparr>"

definition one_sample_noise :: "complex ndarray" where
  "one_sample_noise = \<lparr>shape = [2, 1], elems = (\<lambda>idx. 1)\<rparr>"

section \<open>The power iteration in the words of the specification\<close>

text \<open>
  The specification describes the eigenpair computation at one pixel on the local
  \<open>n\<close> by \<open>n\<close> matrix \<open>R\<close> and vectors of \<open>n\<close> complex numbers: take a start vector
  \<open>v0\<close>, normalise it by its Euclidean norm (the norm is the first power estimate),
  then repeat \<open>v \<leftarrow> R\<cdot>v\<close>, \<open>\<lambda> \<leftarrow> \<parallel>v\<parallel>\<close>, \<open>v \<leftarrow> v/\<lambda>\<close>. It is written here on lists, with the
  matrix as a function of the two coil indices, apart from the arrays of the program:
  \<open>spec_iterate n R v0 k\<close> is the pair \<open>(v, \<lambda>)\<close> after \<open>k\<close> repetitions. The start vector of
  the specification is the row-sum vector \<open>v0[p] = \<Sum>q. R[p,q]\<close>; the column sums are
  \<open>v0[q] = \<Sum>p. R[p,q]\<close>. The iteration is defined for \<open>niter\<close> repetitions when the
  start vector and every product \<open>R\<cdot>v\<close> formed have a non-zero norm.
\<close>

definition spec_norm :: "complex list \<Rightarrow> real" where
  "spec_norm v = sqrt (\<Sum>z\<leftarrow>v. (cmod z)\<^sup>2)"

definition spec_row_sums :: "nat \<Rightarrow> (nat \<Rightarrow> nat \<Rightarrow> complex) \<Rightarrow> complex list" where
  "spec_row_sums n R = map (\<lambda>p. \<Sum>q<n. R p q) [0..<n]"

definition spec_column_sums :: "nat \<Rightarrow> (nat \<Rightarrow> nat \<Rightarrow> complex) \<Rightarrow> complex list" where
  "spec_column_sums n R = map (\<lambda>q. \<Sum>p<n. R p q) [0..<n]"

definition spec_apply :: "nat \<Rightarrow> (nat \<Rightarrow> nat \<Rightarrow> complex) \<Rightarrow> complex list \<Rightarrow> complex list" where
  "spec_apply n R v = map (\<lambda>p. \<Sum>q<n. R p q * v ! q) [0..<n]"

definition spec_unit :: "complex list \<Rightarrow> complex list" where
  "spec_unit v = map (\<lambda>z. z / complex_of_real (spec_norm v)) v"

fun spec_iterate ::
  "nat \<Rightarrow> (nat \<Rightarrow> nat \<Rightarrow> complex) \<Rightarrow> complex list \<Rightarrow> nat \<Rightarrow> complex list \<times> real" where
  "spec_iterate n R v0 0 = (spec_unit v0, spec_norm v0)"
| "spec_iterate n R v0 (Suc k) =
     (let w = spec_apply n R (fst (spec_iterate n R v0 k)) in (spec_unit w, spec_norm w))"


text \<open>
  The entries of a matrix of the program, and the relation between a vector of the
  program and the list of its \<open>n\<close> components.
\<close>

definition matrix_entries :: "complex ndarray \<Rightarrow> nat \<Rightarrow> nat \<Rightarrow> complex" where
  "matrix_entries R p q = elems R [p, q]"



section \<open>Properties of smooth\<close>

lemma np_complex_real_imag: "np_complex (np_real a) (np_imag a) = a"
proof -
  have "\<And>z. complex_of_real (Re z) + \<i> * complex_of_real (Im z) = z"
    by (simp add: complex_eq_iff)
  then show ?thesis
    by (simp add: np_complex_def np_real_def np_imag_def)
qed

text \<open>
  C8. For every complex field \<open>x\<close>, of two, three or any other number of dimensions,
  \<open>smooth\<close> with window size 1 returns \<open>x\<close> unchanged, and hence smoothing twice with
  window size 1 is the same as smoothing once.
\<close>

theorem smooth_window_one_identity:
  "smooth x 1 = x \<and> smooth (smooth x 1) 1 = smooth x 1"
proof -
  have "smooth y 1 = y" for y :: "complex ndarray"
    by (simp add: smooth_def uniform_filter_def np_complex_real_imag)
  then show ?thesis by simp
qed

section \<open>Loops that write one cell per iteration\<close>

lemma fold_inner_cell:
  assumes step: "\<And>i j s i' j'. obs (body i j s) i' j' =
                   (if i' = i \<and> j' = j then F i j (obs s i j) else obs s i' j')"
    and "distinct js"
  shows "obs (fold (\<lambda>j s. body i j s) js s) i' j' =
           (if i' = i \<and> j' \<in> set js then F i j' (obs s i j') else obs s i' j')"
  using \<open>distinct js\<close>
proof (induction js arbitrary: s)
  case Nil
  then show ?case by simp
next
  case (Cons j js)
  then show ?case by (auto simp: step)
qed

lemma fold_outer_cell:
  assumes step: "\<And>i j s i' j'. obs (body i j s) i' j' =
                   (if i' = i \<and> j' = j then F i j (obs s i j) else obs s i' j')"
    and "distinct js" and "distinct ps"
  shows "obs (fold (\<lambda>i s. fold (\<lambda>j s. body i j s) js s) ps s) i' j' =
           (if i' \<in> set ps \<and> j' \<in> set js then F i' j' (obs s i' j') else obs s i' j')"
  using \<open>distinct ps\<close>
proof (induction ps arbitrary: s)
  case Nil
  then show ?case by simp
next
  case (Cons i ps)
  then show ?case
    by (auto simp: fold_inner_cell [where obs = obs and F = F, OF step \<open>distinct js\<close>])
qed

lemma for_range2_cell:
  assumes step: "\<And>i j s i' j'. obs (body i j s) i' j' =
                   (if i' = i \<and> j' = j then F i j (obs s i j) else obs s i' j')"
  shows "obs (for_range2 n m body s) i j =
           (if i < n \<and> j < m then F i j (obs s i j) else obs s i j)"
  using fold_outer_cell [where obs = obs and F = F and js = "[0..<m]" and ps = "[0..<n]", OF step]
  by (simp add: for_range2_def)


section \<open>The covariance field\<close>

lemma set_plane_elems [simp]:
  "elems (set_plane a p q b) (p' # q' # rest) =
     (if p' = p \<and> q' = q then elems b rest else elems a (p' # q' # rest))"
  by (simp add: set_plane_def)

lemma set_plane_shape [simp]: "shape (set_plane a p q b) = shape a"
  by (simp add: set_plane_def)

lemma get_plane_set_plane:
  "get_plane (set_plane a p q b) p' q' =
     (if p' = p \<and> q' = q then b\<lparr>shape := shape (get_plane a p q)\<rparr> else get_plane a p' q')"
  by (auto simp: get_plane_def)

lemma raw_covariance_plane:
  "get_plane (raw_covariance img) p q =
     (if p < shape img ! 0 \<and> q < shape img ! 0
      then \<lparr>shape = [shape img ! 1, shape img ! 2],
            elems = (\<lambda>idx. elems img (p # idx) * cnj (elems img (q # idx)))\<rparr>
      else np_zeros [shape img ! 1, shape img ! 2])"
proof -
  let ?body = "\<lambda>p q Rs. set_plane Rs p q
              (np_multiply (coil_image img p) (np_conj (coil_image img q)))"
  let ?F = "\<lambda>p q (P::complex ndarray).
     (np_multiply (coil_image img p) (np_conj (coil_image img q)))\<lparr>shape := shape P\<rparr>"
  have step: "\<And>i j s i' j'. get_plane (?body i j s) i' j' =
       (if i' = i \<and> j' = j then ?F i j (get_plane s i j) else get_plane s i' j')"
    by (simp add: get_plane_set_plane)
  show ?thesis
    unfolding raw_covariance_def Let_def
    by (subst for_range2_cell [where obs = get_plane and F = ?F, OF step])
       (simp add: get_plane_def np_zeros_def np_multiply_def np_conj_def coil_image_def)
qed


lemma uniform_filter1d_shape [simp]: "shape (uniform_filter1d a sz axis) = shape a"
  by (simp add: uniform_filter1d_def)

lemma fold_uniform_filter1d_shape:
  "shape (fold (\<lambda>axis inp. uniform_filter1d inp sz axis) axes a) = shape a"
  by (induction axes arbitrary: a) simp_all

lemma uniform_filter_shape [simp]: "shape (uniform_filter a sz) = shape a"
  by (simp add: uniform_filter_def fold_uniform_filter1d_shape)

lemma smooth_shape [simp]: "shape (smooth a box) = shape a"
  by (simp add: smooth_def np_complex_def np_real_def Let_def)

lemma smoothed_covariance_plane:
  "get_plane (smoothed_covariance img smoothing) p q =
     (if p < shape img ! 0 \<and> q < shape img ! 0
      then smooth (get_plane (raw_covariance img) p q) smoothing
      else get_plane (raw_covariance img) p q)"
proof -
  let ?body = "\<lambda>p q Rs. set_plane Rs p q (smooth (get_plane Rs p q) smoothing)"
  let ?F = "\<lambda>(p::nat) (q::nat) P. smooth P smoothing"
  have step: "\<And>i j s i' j'. get_plane (?body i j s) i' j' =
       (if i' = i \<and> j' = j then ?F i j (get_plane s i j) else get_plane s i' j')"
    by (simp add: get_plane_set_plane)
  show ?thesis
    unfolding smoothed_covariance_def Let_def
    by (subst for_range2_cell [where obs = get_plane and F = ?F, OF step]) simp
qed

lemma elems_via_plane: "elems Rs (p # q # idx) = elems (get_plane Rs p q) idx"
  by (simp add: get_plane_def)

section \<open>The pixel loop\<close>

lemma calculate_csm_walsh_pixel:
  assumes "ndim img = 3" and "y < shape img ! 1" and "x < shape img ! 2"
    and "calculate_csm_walsh img smoothing niter = Inr (csm, rho)"
  shows "elems rho [y, x] =
           snd (power_method (local_matrix (smoothed_covariance img smoothing) y x) niter)"
    and "elems csm [c, y, x] =
           map_option (\<lambda>w. elems w [c])
             (fst (power_method (local_matrix (smoothed_covariance img smoothing) y x) niter))"
proof -
  let ?Rs = "smoothed_covariance img smoothing"
  let ?body = "\<lambda>y x (csm, rho).
                     let R = local_matrix ?Rs y x;
                         (v, lam) = power_method R niter
                     in (set_column csm y x v, set_item rho [y, x] lam)"
  let ?F = "\<lambda>y x (old :: (nat \<Rightarrow> complex option) \<times> real option).
              ((\<lambda>c. map_option (\<lambda>w. elems w [c]) (fst (power_method (local_matrix ?Rs y x) niter))),
               snd (power_method (local_matrix ?Rs y x) niter))"
  have step: "\<And>i j s i' j'. pixel_cell (?body i j s) i' j' =
       (if i' = i \<and> j' = j then ?F i j (pixel_cell s i j) else pixel_cell s i' j')"
    by (auto simp: pixel_cell_def set_column_def set_item_def Let_def split: prod.splits)
  from assms(4) assms(1)
  have res: "(csm, rho) = for_range2 (shape img ! 1) (shape img ! 2) ?body
                (finite_zeros [shape img ! 0, shape img ! 1, shape img ! 2],
                 finite_zeros [shape img ! 1, shape img ! 2])"
    by (simp add: calculate_csm_walsh_def Let_def)
  have "pixel_cell (csm, rho) y x = ?F y x (pixel_cell (finite_zeros [shape img ! 0, shape img ! 1, shape img ! 2],
                 finite_zeros [shape img ! 1, shape img ! 2]) y x)"
    unfolding res using assms(2,3)
    by (subst for_range2_cell [where obs = pixel_cell and F = ?F, OF step]) simp
  then show "elems rho [y, x] = snd (power_method (local_matrix ?Rs y x) niter)"
    and "elems csm [c, y, x] =
           map_option (\<lambda>w. elems w [c]) (fst (power_method (local_matrix ?Rs y x) niter))"
    by (simp_all add: pixel_cell_def fun_eq_iff)
qed


section \<open>Conjugation commutes with smoothing\<close>

lemma uniform_filter1d_negative:
  "uniform_filter1d (np_negative a) sz axis = np_negative (uniform_filter1d a sz axis)"
  by (simp add: uniform_filter1d_def np_negative_def sum_negf)

lemma fold_uniform_filter1d_negative:
  "fold (\<lambda>axis inp. uniform_filter1d inp sz axis) axes (np_negative a) =
     np_negative (fold (\<lambda>axis inp. uniform_filter1d inp sz axis) axes a)"
  by (induction axes arbitrary: a) (simp_all add: uniform_filter1d_negative)

lemma uniform_filter_negative:
  "uniform_filter (np_negative a) sz = np_negative (uniform_filter a sz)"
proof -
  have "ndim (np_negative a) = ndim a"
    by (simp add: ndim_def np_negative_def)
  then show ?thesis
    by (simp add: uniform_filter_def fold_uniform_filter1d_negative)
qed

lemma smooth_conj: "smooth (np_conj a) box = np_conj (smooth a box)"
proof -
  have re: "np_real (np_conj a) = np_real a"
    by (simp add: np_real_def np_conj_def)
  have im: "np_imag (np_conj a) = np_negative (np_imag a)"
    by (simp add: np_imag_def np_conj_def np_negative_def)
  have "np_complex r (np_negative i) = np_conj (np_complex r i)" for r i
    by (simp add: np_complex_def np_negative_def np_conj_def)
  then show ?thesis
    by (simp add: smooth_def re im uniform_filter_negative Let_def)
qed

lemma raw_covariance_plane_conj:
  "get_plane (raw_covariance img) q p = np_conj (get_plane (raw_covariance img) p q)"
  by (simp add: raw_covariance_plane np_conj_def np_zeros_def mult.commute)

lemma smoothed_covariance_plane_conj:
  "get_plane (smoothed_covariance img smoothing) q p =
     np_conj (get_plane (smoothed_covariance img smoothing) p q)"
proof -
  let ?raw = "raw_covariance img"
  have "smooth (get_plane ?raw q p) smoothing = np_conj (smooth (get_plane ?raw p q) smoothing)"
    by (subst raw_covariance_plane_conj) (rule smooth_conj)
  moreover note raw_covariance_plane_conj [of img q p]
  ultimately show ?thesis
    by (simp add: smoothed_covariance_plane conj_commute)
qed

text \<open>
  C7. For every input coil image stack, the coil covariance field built inside
  \<open>calculate_csm_walsh\<close> is Hermitian in its first two indices at every spatial
  location: the value at \<open>(p, q, y, x)\<close> is the complex conjugate of the value at
  \<open>(q, p, y, x)\<close>, both when first formed from the products

  \<open>img[p] * conj(img[q])\<close> and after every \<open>(p, q)\<close> plane has been smoothed.
\<close>

theorem covariance_field_hermitian:
  "elems (raw_covariance img) [p, q, y, x] = cnj (elems (raw_covariance img) [q, p, y, x]) \<and>
   elems (smoothed_covariance img smoothing) [p, q, y, x] =
     cnj (elems (smoothed_covariance img smoothing) [q, p, y, x])"
proof -
  have "elems Rs [q, p, y, x] = cnj (elems Rs [p, q, y, x])"
    if "get_plane Rs q p = np_conj (get_plane Rs p q)" for Rs :: "complex ndarray"
    using that by (simp add: elems_via_plane [of Rs] np_conj_def)
  from this [OF raw_covariance_plane_conj] this [OF smoothed_covariance_plane_conj]
  show ?thesis by simp
qed

text \<open>
  C9. \<open>calculate_csm_walsh\<close> requires an input of exactly three dimensions: on every
  input whose number of dimensions is not 3 the assertion of its first line fails
  (the \<open>AssertionError\<close> with the message "Coil sensitivity map must have exactly 3
  dimensions" is the invalid-shape error of the function), so the result is that error
  alone, with no array computed or returned; on every input of three dimensions the
  function returns its pair of maps.
\<close>

theorem calculate_csm_walsh_requires_3d:
  "(ndim img \<noteq> 3 \<longrightarrow> calculate_csm_walsh img smoothing niter = Inl AssertionError) \<and>
   (ndim img = 3 \<longrightarrow> (\<exists>maps. calculate_csm_walsh img smoothing niter = Inr maps))"
  by (simp add: calculate_csm_walsh_def Let_def)

theorem calculate_csm_walsh_requires_3d_witness:
  "ndim \<lparr>shape = [4, 4], elems = (\<lambda>idx. 1)\<rparr> \<noteq> 3 \<and>
   calculate_csm_walsh \<lparr>shape = [4, 4], elems = (\<lambda>idx. 1)\<rparr> 5 3 = Inl AssertionError \<and>
   ndim \<lparr>shape = [2, 4, 4], elems = (\<lambda>idx. 1)\<rparr> = 3 \<and>
   (\<exists>maps. calculate_csm_walsh \<lparr>shape = [2, 4, 4], elems = (\<lambda>idx. 1)\<rparr> 5 3 = Inr maps)"
  using calculate_csm_walsh_requires_3d [of "\<lparr>shape = [4, 4], elems = (\<lambda>idx. 1)\<rparr>" 5 3]
    calculate_csm_walsh_requires_3d [of "\<lparr>shape = [2, 4, 4], elems = (\<lambda>idx. 1)\<rparr>" 5 3]
  by (simp add: ndim_def)

section \<open>The constant two-coil stack and the power iteration\<close>

lemma raw_covariance_shape:
  "shape (raw_covariance img) = [shape img ! 0, shape img ! 0, shape img ! 1, shape img ! 2]"
proof -
  let ?body = "\<lambda>p q Rs. set_plane Rs p q
              (np_multiply (coil_image img p) (np_conj (coil_image img q)))"
  have step: "\<And>i j s i' j'. (\<lambda>s (i::nat) (j::nat). shape s) (?body i j s) i' j' =
       (if i' = i \<and> j' = j then (\<lambda>i j sh. sh) i j ((\<lambda>s i j. shape s) s i j)
        else (\<lambda>s i j. shape s) s i' j')"
    by simp
  show ?thesis
    unfolding raw_covariance_def Let_def
    using for_range2_cell [where obs = "\<lambda>s (i::nat) (j::nat). shape s" and F = "\<lambda>i j sh. sh"
        and body = ?body, OF step, of _ _ _ 0 0]
    by (simp add: np_zeros_def)
qed

lemma smoothed_covariance_shape:
  "shape (smoothed_covariance img smoothing) =
     [shape img ! 0, shape img ! 0, shape img ! 1, shape img ! 2]"
proof -
  let ?body = "\<lambda>p q Rs. set_plane Rs p q (smooth (get_plane Rs p q) smoothing)"
  have step: "\<And>i j s i' j'. (\<lambda>s (i::nat) (j::nat). shape s) (?body i j s) i' j' =
       (if i' = i \<and> j' = j then (\<lambda>i j sh. sh) i j ((\<lambda>s i j. shape s) s i j)
        else (\<lambda>s i j. shape s) s i' j')"
    by simp
  show ?thesis
    unfolding smoothed_covariance_def Let_def
    using for_range2_cell [where obs = "\<lambda>s (i::nat) (j::nat). shape s" and F = "\<lambda>i j sh. sh"
        and body = ?body, OF step, of _ _ _ 0 0]
    by (simp add: raw_covariance_shape)
qed

lemma local_matrix_shape:
  "shape (local_matrix (smoothed_covariance img smoothing) y x) = [shape img ! 0, shape img ! 0]"
  by (simp add: local_matrix_def smoothed_covariance_shape)

lemma local_matrix_elems:
  "elems (local_matrix Rs y x) [p, q] = elems (get_plane Rs p q) [y, x]"
  by (simp add: local_matrix_def get_plane_def)

lemma uniform_filter1d_const:
  assumes "elems a = (\<lambda>idx. c)" and "0 < sz"
  shows "uniform_filter1d a sz axis = a"
proof -
  have "elems (uniform_filter1d a sz axis) = elems a"
    using assms by (simp add: uniform_filter1d_def fun_eq_iff)
  then show ?thesis
    by (simp add: uniform_filter1d_def)
qed

lemma fold_uniform_filter1d_const:
  assumes "elems a = (\<lambda>idx. c)" and "0 < sz"
  shows "fold (\<lambda>axis inp. uniform_filter1d inp sz axis) axes a = a"
  by (induction axes) (simp_all add: uniform_filter1d_const [OF assms])

lemma uniform_filter_const:
  assumes "elems a = (\<lambda>idx. c)"
  shows "uniform_filter a sz = a"
  using assms by (simp add: uniform_filter_def fold_uniform_filter1d_const)

lemma smooth_const:
  assumes "elems a = (\<lambda>idx. c)"
  shows "smooth a box = a"
proof -
  have "uniform_filter (np_real a) box = np_real a"
    by (rule uniform_filter_const [where c = "Re c"]) (simp add: np_real_def assms)
  moreover have "uniform_filter (np_imag a) box = np_imag a"
    by (rule uniform_filter_const [where c = "Im c"]) (simp add: np_imag_def assms)
  ultimately show ?thesis
    by (simp add: smooth_def np_complex_real_imag)
qed

lemma coil_pair_local_matrix:
  assumes "p < 2" and "q < 2"
  shows "elems (local_matrix (smoothed_covariance coil_pair_image smoothing) y x) [p, q] =
           coil_value p * cnj (coil_value q)"
proof -
  let ?P = "get_plane (raw_covariance coil_pair_image) p q"
  have raw: "?P = \<lparr>shape = [4, 4], elems = (\<lambda>idx. coil_value p * cnj (coil_value q))\<rparr>"
    using assms by (simp add: raw_covariance_plane coil_pair_image_def coil_value_def)
  have "smooth ?P smoothing = ?P"
    by (rule smooth_const [where c = "coil_value p * cnj (coil_value q)"]) (simp add: raw)
  then have "get_plane (smoothed_covariance coil_pair_image smoothing) p q = ?P"
    using assms by (simp add: smoothed_covariance_plane coil_pair_image_def)
  then show ?thesis
    by (simp add: local_matrix_elems raw)
qed

lemma coil_pair_matrix_entries:
  fixes y x smoothing
  defines "R \<equiv> local_matrix (smoothed_covariance coil_pair_image smoothing) y x"
  shows "elems R [0, 0] = 1" and "elems R [0, 1] = - \<i>"
    and "elems R [1, 0] = \<i>" and "elems R [1, 1] = 1"
    and "shape R = [2, 2]"
proof -
  show "elems R [0, 0] = 1" and "elems R [0, 1] = - \<i>"
    and "elems R [1, 0] = \<i>" and "elems R [1, 1] = 1"
    unfolding R_def
    using coil_pair_local_matrix [of 0 0 smoothing y x] coil_pair_local_matrix [of 0 1 smoothing y x]
      coil_pair_local_matrix [of 1 0 smoothing y x] coil_pair_local_matrix [of 1 1 smoothing y x]
    by (simp_all add: coil_value_def)
  show "shape R = [2, 2]"
    unfolding R_def by (simp add: local_matrix_shape coil_pair_image_def)
qed

lemma sum_lessThan_two: "(\<Sum>i<(2::nat). f i) = f 0 + (f 1 :: 'a::comm_monoid_add)"
  by (simp add: numeral_2_eq_2)

lemma coil_pair_start:
  fixes y x smoothing
  defines "R \<equiv> local_matrix (smoothed_covariance coil_pair_image smoothing) y x"
  shows "elems (np_sum_axis0 R) [0] = 1 + \<i>" and "elems (np_sum_axis0 R) [1] = 1 - \<i>"
    and "shape (np_sum_axis0 R) = [2]" and "np_norm (np_sum_axis0 R) = 2"
proof -
  note ent = coil_pair_matrix_entries [of smoothing y x, folded R_def]
  show a: "elems (np_sum_axis0 R) [0] = 1 + \<i>" and b: "elems (np_sum_axis0 R) [1] = 1 - \<i>"
    and c: "shape (np_sum_axis0 R) = [2]"
    using ent by (simp_all add: np_sum_axis0_def sum_lessThan_two)
  have "(cmod (1 + \<i>))\<^sup>2 = 2" and "(cmod (1 - \<i>))\<^sup>2 = 2"
    by (simp_all add: cmod_power2)
  then have "np_norm (np_sum_axis0 R) = sqrt 4"
    using a b c by (simp add: np_norm_def sum_lessThan_two)
  also have "sqrt 4 = (2::real)"
    using real_sqrt_abs [of 2] by simp
  finally show "np_norm (np_sum_axis0 R) = 2" .
qed

lemma fold_power_step_nan:
  "fold (\<lambda>iter s. power_step R s) xs (None, l) = (None, if xs = [] then l else None)"
  by (induction xs arbitrary: l) simp_all

lemma power_method_first_step:
  assumes "0 < niter"
  shows "power_method R niter =
           fold (\<lambda>iter s. power_step R s) [1..<nat niter]
             (power_step R (norm_and_divide (np_sum_axis0 R)))"
proof -
  have "[0..<nat niter] = 0 # [1..<nat niter]"
    using assms by (simp add: upt_conv_Cons)
  then show ?thesis
    by (simp add: power_method_def)
qed

lemma coil_pair_first_product:
  fixes y x smoothing
  defines "R \<equiv> local_matrix (smoothed_covariance coil_pair_image smoothing) y x"
  defines "w \<equiv> np_dot R (np_divide (np_sum_axis0 R) 2)"
  shows "elems w [0] = 0" and "elems w [1] = 0" and "shape w = [2]" and "np_norm w = 0"
proof -
  note ent = coil_pair_matrix_entries [of smoothing y x, folded R_def]
  note start = coil_pair_start [of smoothing y x, folded R_def]
  have half: "(1 + \<i>) / 2 + - \<i> * ((1 - \<i>) / 2) = 0" "\<i> * ((1 + \<i>) / 2) + (1 - \<i>) / 2 = 0"
    by (simp_all add: complex_eq_iff)
  show a: "elems w [0] = 0" and b: "elems w [1] = 0" and c: "shape w = [2]"
    using ent start(1,2) half
    by (simp_all add: w_def np_dot_def np_divide_def sum_lessThan_two)
  show "np_norm w = 0"
    using a b c by (simp add: np_norm_def sum_lessThan_two)
qed

lemma coil_pair_start_state:
  fixes y x smoothing
  defines "R \<equiv> local_matrix (smoothed_covariance coil_pair_image smoothing) y x"
  shows "norm_and_divide (np_sum_axis0 R) = (Some (np_divide (np_sum_axis0 R) 2), Some 2)"
  using coil_pair_start(4) [of smoothing y x, folded R_def]
  by (simp add: norm_and_divide_def)

lemma coil_pair_power_method:
  fixes y x smoothing
  defines "R \<equiv> local_matrix (smoothed_covariance coil_pair_image smoothing) y x"
  shows "power_method R 3 = (None, None)"
proof -
  note prod = coil_pair_first_product [of smoothing y x, folded R_def]
  have "power_step R (norm_and_divide (np_sum_axis0 R)) =
          norm_and_divide (np_dot R (np_divide (np_sum_axis0 R) 2))"
    by (simp add: coil_pair_start_state [of smoothing y x, folded R_def])
  also have "\<dots> = (None, Some 0)"
    using prod(3,4) by (simp add: norm_and_divide_def)
  finally have "power_step R (norm_and_divide (np_sum_axis0 R)) = (None, Some 0)" .
  moreover have "[1..<nat 3] \<noteq> []"
    by simp
  ultimately show ?thesis
    by (simp add: power_method_first_step fold_power_step_nan del: upt_eq_Nil_conv)
qed

lemma coil_pair_result:
  "calculate_csm_walsh coil_pair_image smoothing niter =
     Inr (fst (projr (calculate_csm_walsh coil_pair_image smoothing niter)),
          snd (projr (calculate_csm_walsh coil_pair_image smoothing niter)))"
  by (simp add: calculate_csm_walsh_def ndim_def coil_pair_image_def Let_def)

lemma coil_pair_dims:
  "ndim coil_pair_image = 3" "shape coil_pair_image ! 0 = 2"
  "shape coil_pair_image ! 1 = 4" "shape coil_pair_image ! 2 = 4"
  by (simp_all add: ndim_def coil_pair_image_def)

text \<open>
  C1 on the code. For the 2-coil 4x4 stack with coil 0 equal to \<open>1\<close> and coil 1 equal
  to \<open>\<i>\<close> everywhere, \<open>calculate_csm_walsh\<close> with smoothing 5 and 3 iterations forms at
  every pixel the local covariance matrix \<open>[[1, -\<i>], [\<i>, 1]]\<close>. The start vector of the
  code, the column sums \<open>[1 + \<i>, 1 - \<i>]\<close> divided by their norm 2, is mapped to the zero
  vector by that matrix, so the first pass of the power method divides zero by zero,
  and both components of the sensitivity vector and the power map come out as \<open>nan\<close>
  at every pixel, although the matrix has the dominant eigenvalue 2.
\<close>

theorem coil_pair_scenario:
  assumes "y < 4" and "x < 4"
  shows "let R = local_matrix (smoothed_covariance coil_pair_image 5) y x;
             csm = fst (projr (calculate_csm_walsh coil_pair_image 5 3));
             rho = snd (projr (calculate_csm_walsh coil_pair_image 5 3))
         in elems R [0, 0] = 1 \<and> elems R [0, 1] = - \<i> \<and>
            elems R [1, 0] = \<i> \<and> elems R [1, 1] = 1 \<and>
            np_norm (np_sum_axis0 R) = 2 \<and>
            np_norm (np_dot R (np_divide (np_sum_axis0 R) 2)) = 0 \<and>
            elems csm [0, y, x] = None \<and> elems csm [1, y, x] = None \<and>
            elems rho [y, x] = None"
proof -
  let ?R = "local_matrix (smoothed_covariance coil_pair_image 5) y x"
  note pix = calculate_csm_walsh_pixel [OF coil_pair_dims(1) _ _ coil_pair_result [of 5 3],
      of y x]
  have "y < shape coil_pair_image ! 1" and "x < shape coil_pair_image ! 2"
    using assms by (simp_all add: coil_pair_image_def)
  then have "elems (snd (projr (calculate_csm_walsh coil_pair_image 5 3))) [y, x] = None"
    and "\<And>c. elems (fst (projr (calculate_csm_walsh coil_pair_image 5 3))) [c, y, x] = None"
    by (simp_all add: pix coil_pair_power_method)
  with coil_pair_matrix_entries [of 5 y x] coil_pair_start(4) [of 5 y x]
    coil_pair_first_product(4) [of 5 y x]
  show ?thesis
    by (simp add: Let_def)
qed

theorem coil_pair_scenario_witness:
  "(0::nat) < 4 \<and>
   elems (local_matrix (smoothed_covariance coil_pair_image 5) 0 0) [0, 1] = - \<i> \<and>
   elems (fst (projr (calculate_csm_walsh coil_pair_image 5 3))) [0, 0, 0] = None \<and>
   elems (snd (projr (calculate_csm_walsh coil_pair_image 5 3))) [0, 0] = None"
  using coil_pair_scenario [of 0 0] by (simp add: Let_def)

section \<open>The single-coil case: power and sensitivity\<close>

lemma uniform_filter1d_nonneg:
  assumes "\<And>idx. 0 \<le> elems a idx"
  shows "0 \<le> elems (uniform_filter1d a sz axis) idx"
  by (simp add: uniform_filter1d_def assms sum_nonneg)

lemma fold_uniform_filter1d_nonneg:
  assumes "\<And>idx. 0 \<le> elems a idx"
  shows "0 \<le> elems (fold (\<lambda>axis inp. uniform_filter1d inp sz axis) axes a) idx"
  using assms
proof (induction axes arbitrary: a idx)
  case Nil
  then show ?case by simp
next
  case (Cons axis axes)
  show ?case
    by (simp, rule Cons.IH) (rule uniform_filter1d_nonneg, rule Cons.prems)
qed

lemma uniform_filter_nonneg:
  assumes "\<And>idx. 0 \<le> elems a idx"
  shows "0 \<le> elems (uniform_filter a sz) idx"
  using assms by (simp add: uniform_filter_def fold_uniform_filter1d_nonneg)

lemma single_coil_plane:
  assumes "shape img = [1, ny, nx]"
  shows "get_plane (smoothed_covariance img smoothing) 0 0 =
           \<lparr>shape = [ny, nx],
            elems = (\<lambda>idx. complex_of_real (elems (uniform_filter (power_image img) smoothing) idx))\<rparr>"
proof -
  let ?P = "get_plane (raw_covariance img) 0 0"
  have sq: "z * cnj z = (complex_of_real (cmod z))\<^sup>2" for z
    using complex_norm_square [of z] by simp
  have raw: "?P = \<lparr>shape = [ny, nx],
                    elems = (\<lambda>idx. complex_of_real (elems (power_image img) idx))\<rparr>"
    using assms by (simp add: raw_covariance_plane power_image_def sq)
  have re: "np_real ?P = power_image img"
    using assms by (simp add: raw np_real_def power_image_def)
  have im: "np_imag ?P = \<lparr>shape = [ny, nx], elems = (\<lambda>idx. 0)\<rparr>"
    by (simp add: raw np_imag_def)
  have "uniform_filter (np_imag ?P) smoothing = np_imag ?P"
    by (rule uniform_filter_const [where c = 0]) (simp add: im)
  then have "smooth ?P smoothing =
      \<lparr>shape = [ny, nx],
       elems = (\<lambda>idx. complex_of_real (elems (uniform_filter (power_image img) smoothing) idx))\<rparr>"
    using assms by (simp add: smooth_def re im np_complex_def power_image_def)
  then show ?thesis
    using assms by (simp add: smoothed_covariance_plane)
qed

lemma sum_lessThan_one: "(\<Sum>i<(1::nat). f i) = (f 0 :: 'a::comm_monoid_add)"
  by simp

lemma single_coil_normalise:
  assumes "shape w = [1]" and "elems w [0] = complex_of_real r" and "0 < r"
  shows "unit_state r (norm_and_divide w)"
proof -
  have "np_norm w = r"
    using assms by (simp add: np_norm_def norm_of_real)
  then show ?thesis
    using assms by (simp add: unit_state_def norm_and_divide_def np_divide_def)
qed

lemma single_coil_step:
  assumes "shape R = [1, 1]" and "elems R [0, 0] = complex_of_real r" and "0 < r"
    and "unit_state r s"
  shows "unit_state r (power_step R s)"
proof -
  from assms(4) obtain u where s: "s = (Some u, Some r)" and u: "shape u = [1]" "elems u [0] = 1"
    by (auto simp: unit_state_def)
  have "unit_state r (norm_and_divide (np_dot R u))"
    by (rule single_coil_normalise) (simp_all add: np_dot_def assms(1,2,3) u)
  then show ?thesis
    by (simp add: s)
qed

lemma single_coil_power_method:
  assumes "shape R = [1, 1]" and "elems R [0, 0] = complex_of_real r" and "0 < r"
  shows "unit_state r (power_method R niter)"
proof -
  have start: "unit_state r (norm_and_divide (np_sum_axis0 R))"
    by (rule single_coil_normalise) (simp_all add: np_sum_axis0_def assms)
  have "unit_state r (fold (\<lambda>iter s. power_step R s) xs s)" if "unit_state r s" for xs :: "nat list" and s
    using that by (induction xs arbitrary: s) (simp_all add: single_coil_step [OF assms])
  from this [OF start] show ?thesis
    by (simp add: power_method_def)
qed

lemma single_coil_pixel:
  assumes "shape img = [1, ny, nx]" and "y < ny" and "x < nx"
    and "calculate_csm_walsh img smoothing niter = Inr (csm, rho)"
    and "elems (uniform_filter (power_image img) smoothing) [y, x] \<noteq> 0"
  shows "elems csm [0, y, x] = Some 1"
    and "elems rho [y, x] = Some (elems (uniform_filter (power_image img) smoothing) [y, x])"
proof -
  let ?r = "elems (uniform_filter (power_image img) smoothing) [y, x]"
  let ?R = "local_matrix (smoothed_covariance img smoothing) y x"
  have "0 \<le> ?r"
    by (rule uniform_filter_nonneg) (simp add: power_image_def)
  with assms(5) have pos: "0 < ?r"
    by simp
  have sh: "shape ?R = [1, 1]"
    using assms(1) by (simp add: local_matrix_shape)
  have el: "elems ?R [0, 0] = complex_of_real ?r"
    by (simp add: local_matrix_elems single_coil_plane [OF assms(1)])
  from single_coil_power_method [OF sh el pos, of niter]
  obtain u where pm: "power_method ?R niter = (Some u, Some ?r)" and u: "elems u [0] = 1"
    by (auto simp: unit_state_def)
  have dims: "ndim img = 3" "y < shape img ! 1" "x < shape img ! 2"
    using assms(1,2,3) by (simp_all add: ndim_def)
  show "elems csm [0, y, x] = Some 1"
    using calculate_csm_walsh_pixel(2) [OF dims assms(4), of 0] by (simp add: pm u)
  show "elems rho [y, x] = Some ?r"
    using calculate_csm_walsh_pixel(1) [OF dims assms(4)] by (simp add: pm)
qed

lemma reflect_index_inside:
  assumes "0 \<le> i" and "i < int n"
  shows "reflect_index n i = nat i"
  using assms by (simp add: reflect_index_def)

lemma uniform_filter1d_inside:
  assumes "sz div 2 \<le> idx ! axis" and "idx ! axis - sz div 2 + sz \<le> shape a ! axis"
  shows "elems (uniform_filter1d a sz axis) idx =
           (\<Sum>j<sz. elems a (idx[axis := idx ! axis - sz div 2 + j])) / real sz"
proof -
  have "reflect_index (shape a ! axis) (int (idx ! axis) + int j - int (sz div 2)) =
          idx ! axis - sz div 2 + j" if "j < sz" for j
  proof -
    have "int (idx ! axis) + int j - int (sz div 2) = int (idx ! axis - sz div 2 + j)"
      using assms(1) by simp
    moreover have "idx ! axis - sz div 2 + j < shape a ! axis"
      using assms(2) that by simp
    ultimately show ?thesis
      by (simp add: reflect_index_inside del: of_nat_add of_nat_diff)
  qed
  then show ?thesis
    by (simp add: uniform_filter1d_def)
qed

lemma bright_pixel_power:
  "power_image bright_pixel_image =
     \<lparr>shape = [5, 5], elems = (\<lambda>idx. if idx = [2, 2] then 1 else 0)\<rparr>"
  by (simp add: power_image_def bright_pixel_image_def fun_eq_iff)

lemma bright_pixel_filtered:
  "elems (uniform_filter (power_image bright_pixel_image) 5) [2, 2] = 1 / 25"
proof -
  let ?a = "power_image bright_pixel_image"
  let ?a1 = "uniform_filter1d ?a 5 0"
  have col: "elems ?a1 [2, j] = (if j = 2 then 1 / 5 else 0)" for j
  proof -
    have "elems ?a1 [2, j] = (\<Sum>k<5. elems ?a ([2, j][0 := [2, j] ! 0 - 5 div 2 + k])) / real 5"
      by (rule uniform_filter1d_inside) (simp_all add: bright_pixel_power)
    also have "\<dots> = (\<Sum>k<(5::nat). if k = 2 then (if j = 2 then 1 else 0) else 0) / (5::real)"
      by (simp add: bright_pixel_power cong: if_cong)
    also have "\<dots> = (if j = 2 then 1 / 5 else 0)"
      by (subst sum.delta) simp_all
    finally show ?thesis .
  qed
  have "uniform_filter ?a 5 = uniform_filter1d ?a1 5 1"
    by (simp add: uniform_filter_def ndim_def bright_pixel_power upt_rec [of 0] upt_rec [of 1]
        numeral_2_eq_2)
  also have "elems (uniform_filter1d ?a1 5 1) [2, 2] =
      (\<Sum>j<5. elems ?a1 ([2, 2][1 := [2, 2] ! 1 - 5 div 2 + j])) / real 5"
    by (rule uniform_filter1d_inside) (simp_all add: bright_pixel_power)
  also have "\<dots> = (\<Sum>j<(5::nat). if j = 2 then 1 / 5 else 0) / (5::real)"
    by (simp add: col)
  also have "\<dots> = 1 / 25"
    by (subst sum.delta) simp_all
  finally show ?thesis .
qed

lemma calculate_csm_walsh_result:
  assumes "ndim img = 3"
  shows "calculate_csm_walsh img smoothing niter =
           Inr (fst (projr (calculate_csm_walsh img smoothing niter)),
                snd (projr (calculate_csm_walsh img smoothing niter)))"
  using assms by (simp add: calculate_csm_walsh_def Let_def)

lemma bright_pixel_dims:
  "shape bright_pixel_image = [1, 5, 5]" "ndim bright_pixel_image = 3"
  by (simp_all add: bright_pixel_image_def ndim_def)

text \<open>
  C6, as the code behaves. For every single-coil 3D image stack and every pixel at
  which the box-smoothed squared magnitude of the image (the mean of \<open>|img|\<^sup>2\<close> over
  the smoothing window) is not zero, \<open>calculate_csm_walsh\<close> returns a sensitivity of
  exactly 1 and a power equal to that smoothed squared magnitude; the power is the
  squared magnitude \<open>|img|\<^sup>2\<close> of the pixel itself when the smoothing window is 1 or less.
\<close>

theorem single_coil_maps:
  assumes "shape img = [1, ny, nx]" and "y < ny" and "x < nx"
    and "calculate_csm_walsh img smoothing niter = Inr (csm, rho)"
    and "elems (uniform_filter (power_image img) smoothing) [y, x] \<noteq> 0"
  shows "elems csm [0, y, x] = Some 1 \<and>
         elems rho [y, x] = Some (elems (uniform_filter (power_image img) smoothing) [y, x]) \<and>
         (smoothing \<le> 1 \<longrightarrow> elems rho [y, x] = Some ((cmod (elems img [0, y, x]))\<^sup>2))"
proof -
  have "elems (uniform_filter (power_image img) smoothing) [y, x] = (cmod (elems img [0, y, x]))\<^sup>2"
    if "smoothing \<le> 1"
    using that by (simp add: uniform_filter_def power_image_def)
  with single_coil_pixel [OF assms] show ?thesis
    by simp
qed

theorem single_coil_maps_witness:
  "shape bright_pixel_image = [1, 5, 5] \<and> (2::nat) < 5 \<and>
   elems (uniform_filter (power_image bright_pixel_image) 5) [2, 2] \<noteq> 0 \<and>
   elems (fst (projr (calculate_csm_walsh bright_pixel_image 5 3))) [0, 2, 2] = Some 1 \<and>
   elems (snd (projr (calculate_csm_walsh bright_pixel_image 5 3))) [2, 2] = Some (1 / 25) \<and>
   elems (uniform_filter (power_image bright_pixel_image) 1) [2, 2] \<noteq> 0 \<and> (1::int) \<le> 1 \<and>
   elems (snd (projr (calculate_csm_walsh bright_pixel_image 1 3))) [2, 2] =
     Some ((cmod (elems bright_pixel_image [0, 2, 2]))\<^sup>2)"
proof -
  have five: "elems (uniform_filter (power_image bright_pixel_image) 5) [2, 2] \<noteq> 0"
    by (simp add: bright_pixel_filtered)
  have one: "elems (uniform_filter (power_image bright_pixel_image) 1) [2, 2] \<noteq> 0"
    by (simp add: uniform_filter_def bright_pixel_power)
  have a: "elems (fst (projr (calculate_csm_walsh bright_pixel_image 5 3))) [0, 2, 2] = Some 1"
    and b: "elems (snd (projr (calculate_csm_walsh bright_pixel_image 5 3))) [2, 2] = Some (1 / 25)"
    using single_coil_maps [OF bright_pixel_dims(1) _ _
        calculate_csm_walsh_result [OF bright_pixel_dims(2), of 5 3] five]
    by (simp_all add: bright_pixel_filtered)
  have c: "elems (snd (projr (calculate_csm_walsh bright_pixel_image 1 3))) [2, 2] =
      Some ((cmod (elems bright_pixel_image [0, 2, 2]))\<^sup>2)"
    using single_coil_maps [OF bright_pixel_dims(1) _ _
        calculate_csm_walsh_result [OF bright_pixel_dims(2), of 1 3] one,
        THEN conjunct2, THEN conjunct2]
    by simp
  from a b c five one bright_pixel_dims(1) show ?thesis
    by (intro conjI) simp_all
qed

theorem single_coil_power_counterexample:
  "elems (snd (projr (calculate_csm_walsh bright_pixel_image 5 3))) [2, 2] \<noteq>
     Some ((cmod (elems bright_pixel_image [0, 2, 2]))\<^sup>2)"
proof -
  have "elems (uniform_filter (power_image bright_pixel_image) 5) [2, 2] \<noteq> 0"
    by (simp add: bright_pixel_filtered)
  from single_coil_pixel(2) [OF bright_pixel_dims(1) _ _
      calculate_csm_walsh_result [OF bright_pixel_dims(2), of 5 3] this]
  have "elems (snd (projr (calculate_csm_walsh bright_pixel_image 5 3))) [2, 2] = Some (1 / 25)"
    by (simp add: bright_pixel_filtered)
  then show ?thesis
    by (simp add: bright_pixel_image_def)
qed

section \<open>calculate_prewhitening against its specification\<close>

lemma reshape_samples:
  assumes "shape noise = n0 # rest" and "0 < n0"
  shows "np_reshape noise [n0, np_size noise div n0] =
           Inr \<lparr>shape = [n0, prod_list rest],
                elems = (\<lambda>idx. elems noise
                           (unravel_index (n0 # rest) (ravel_index [n0, prod_list rest] idx)))\<rparr>"
  using assms by (simp add: np_reshape_def np_size_def)

lemma reshape_sample_elem:
  assumes "k < prod_list rest"
  shows "unravel_index (n0 # rest) (ravel_index [n0, prod_list rest] [i, k]) =
           i # unravel_index rest k"
  using assms by simp

lemma code_covariance:
  assumes "shape noise = n0 # rest"
  defines "N \<equiv> \<lparr>shape = [n0, prod_list rest],
                elems = (\<lambda>idx. elems noise
                           (unravel_index (n0 # rest) (ravel_index [n0, prod_list rest] idx)))\<rparr>"
  shows "np_matmul (np_scale (1 / (real (prod_list rest) - 1)) N) (np_conj_transpose N) =
           spec_covariance noise"
proof -
  let ?M = "prod_list rest"
  let ?c = "complex_of_real (1 / (real ?M - 1))"
  have entry: "(\<Sum>k<?M. ?c * elems N [i, k] * cnj (elems N [j, k])) =
          ?c * (\<Sum>k<?M. spec_sample noise i k * cnj (spec_sample noise j k))" for i j
  proof -
    have "elems N [i, k] = spec_sample noise i k" if "k < ?M" for i k
      using that by (simp add: N_def spec_sample_def assms(1))
    then have "(\<Sum>k<?M. ?c * elems N [i, k] * cnj (elems N [j, k])) =
        (\<Sum>k<?M. ?c * (spec_sample noise i k * cnj (spec_sample noise j k)))"
      by (intro sum.cong) (simp_all add: mult.assoc)
    then show ?thesis
      by (simp only: sum_distrib_left)
  qed
  have sh: "shape N = [n0, ?M]"
    by (simp add: N_def)
  have "elems (np_matmul (np_scale (1 / (real ?M - 1)) N) (np_conj_transpose N)) idx =
          elems (spec_covariance noise) idx" for idx
    using entry
    by (simp add: np_matmul_def np_scale_def np_conj_transpose_def spec_covariance_def sh assms(1)
        Let_def split: list.splits)
  then show ?thesis
    by (simp add: np_matmul_def np_scale_def np_conj_transpose_def spec_covariance_def sh assms(1)
        Let_def fun_eq_iff)
qed

lemma times_float_twice:
  "times_float (times_float (np_finite a) (np_sqrt 2)) x =
     \<lparr>shape = shape a,
      elems = (\<lambda>idx. map_option (\<lambda>r. elems a idx * complex_of_real (sqrt 2 * r)) x)\<rparr>"
  by (cases x) (simp_all add: times_float_def np_finite_def np_sqrt_def mult.assoc)

lemma calculate_prewhitening_unfold:
  assumes "shape noise = n0 # rest" and "0 < n0" and "prod_list rest \<noteq> 1"
  shows "calculate_prewhitening linalg_cholesky linalg_inv noise scale_factor =
           spec_prewhitening linalg_cholesky linalg_inv noise scale_factor"
proof -
  define N where "N = \<lparr>shape = [n0, prod_list rest],
                elems = (\<lambda>idx. elems noise
                           (unravel_index (n0 # rest) (ravel_index [n0, prod_list rest] idx)))\<rparr>"
  have rs: "np_reshape noise [n0, np_size noise div n0] = Inr N"
    unfolding N_def by (rule reshape_samples [OF assms(1,2)])
  have M: "shape N ! Suc 0 = prod_list rest"
    by (simp add: N_def)
  have cov: "np_matmul (np_scale (1 / (real (prod_list rest) - 1)) N) (np_conj_transpose N) =
      spec_covariance noise"
    unfolding N_def by (rule code_covariance [OF assms(1)])
  have nz: "real (prod_list rest) - 1 \<noteq> 0"
    using assms(3) by simp
  show ?thesis
    using assms(2) nz
    by (simp add: calculate_prewhitening_def assms(1) rs M cov spec_prewhitening_def
        times_float_twice Let_def cong: sum.case_cong)
qed

lemma two_sample_covariance:
  "spec_covariance two_sample_noise = \<lparr>shape = [1, 1],
     elems = (\<lambda>idx. case idx of
                [i, j] \<Rightarrow> (if i = 0 \<and> j = 0 then 4 else 0)
              | _ \<Rightarrow> 0)\<rparr>"
  by (auto simp: spec_covariance_def two_sample_noise_def spec_sample_def sum_lessThan_two
      fun_eq_iff split: list.splits)

lemma two_sample_spec:
  assumes "0 \<le> s"
  shows "spec_prewhitening cholesky_1x1 inv_1x1 two_sample_noise s =
           Inr \<lparr>shape = [1, 1],
                elems = (\<lambda>idx. Some (1 / 2 * complex_of_real (sqrt 2 * sqrt s)))\<rparr>"
proof -
  have "sqrt 4 = (2::real)"
    using real_sqrt_abs [of 2] by simp
  then show ?thesis
    using assms
    by (simp add: spec_prewhitening_def two_sample_covariance cholesky_1x1_def inv_1x1_def
        np_sqrt_def)
qed

text \<open>
  C3. For every noise array with the coil as first axis and \<open>M\<close> samples per coil in
  all, \<open>M \<ge> 2\<close>, \<open>calculate_prewhitening\<close> returns what the specification describes:
  the noise reshaped to \<open>(coil, M)\<close>, the covariance \<open>C = (1/(M-1)) \<cdot> N \<cdot> N\<^sup>H\<close>, the
  inverse of the lower-triangular Cholesky factor of \<open>C\<close>, multiplied by
  \<open>sqrt(2) \<cdot> sqrt(scale_factor)\<close>; an error of the factorisation or of the inversion is
  the result in both.
\<close>

theorem calculate_prewhitening_refines:
  assumes "shape noise = ncoils # rest" and "0 < ncoils" and "2 \<le> prod_list rest"
  shows "calculate_prewhitening linalg_cholesky linalg_inv noise scale_factor =
           spec_prewhitening linalg_cholesky linalg_inv noise scale_factor"
proof -
  have "prod_list rest \<noteq> 1"
    using assms(3) by simp
  then show ?thesis
    by (rule calculate_prewhitening_unfold [OF assms(1,2)])
qed

theorem calculate_prewhitening_refines_witness:
  "shape two_sample_noise = [1, 2] \<and> (0::nat) < 1 \<and> (2::nat) \<le> prod_list [2] \<and>
   calculate_prewhitening cholesky_1x1 inv_1x1 two_sample_noise 1 =
     Inr \<lparr>shape = [1, 1], elems = (\<lambda>idx. Some (complex_of_real (sqrt 2) / 2))\<rparr>"
proof -
  have sh: "shape two_sample_noise = [1, 2]"
    by (simp add: two_sample_noise_def)
  have "calculate_prewhitening cholesky_1x1 inv_1x1 two_sample_noise 1 =
          spec_prewhitening cholesky_1x1 inv_1x1 two_sample_noise 1"
    by (rule calculate_prewhitening_refines [OF sh]) simp_all
  then show ?thesis
    by (simp add: sh two_sample_spec)
qed

lemma single_sample_division:
  assumes "shape noise = n0 # rest" and "0 < n0" and "prod_list rest = 1"
  shows "calculate_prewhitening linalg_cholesky linalg_inv noise scale_factor =
           Inl ZeroDivisionError"
  using assms
  by (simp add: calculate_prewhitening_def reshape_samples [OF assms(1,2)])

text \<open>
  C4, as the code behaves. For every noise array whose total sample count per coil is
  exactly 1, \<open>calculate_prewhitening\<close> raises Python's \<open>ZeroDivisionError\<close>: the float
  division \<open>1/(M-1)\<close> fails before the covariance is formed or factorised, whatever the
  factorisation routine would do, and the error reaches the caller with no matrix
  returned. It is not the error of a matrix that is not positive definite.
\<close>

theorem single_sample_error:
  assumes "shape noise = ncoils # rest" and "0 < ncoils" and "prod_list rest = 1"
  shows "calculate_prewhitening linalg_cholesky linalg_inv noise scale_factor =
           Inl ZeroDivisionError"
  by (rule single_sample_division [OF assms])

theorem single_sample_error_witness:
  "shape one_sample_noise = [2, 1] \<and> (0::nat) < 2 \<and> prod_list [1::nat] = 1 \<and>
   calculate_prewhitening cholesky_1x1 inv_1x1 one_sample_noise 1 = Inl ZeroDivisionError"
proof -
  have sh: "shape one_sample_noise = [2, 1]"
    by (simp add: one_sample_noise_def)
  have "calculate_prewhitening cholesky_1x1 inv_1x1 one_sample_noise 1 = Inl ZeroDivisionError"
    by (rule single_sample_error [OF sh]) simp_all
  then show ?thesis
    by (simp add: sh)
qed

theorem single_sample_counterexample:
  "calculate_prewhitening cholesky_1x1 inv_1x1 one_sample_noise 1 \<noteq> Inl LinAlgError"
proof -
  have "shape one_sample_noise = [2, 1]"
    by (simp add: one_sample_noise_def)
  then have "calculate_prewhitening cholesky_1x1 inv_1x1 one_sample_noise 1 =
      Inl ZeroDivisionError"
    by (rule single_sample_division) simp_all
  then show ?thesis
    by simp
qed

text \<open>
  C10. For every noise array on which \<open>calculate_prewhitening\<close> succeeds and every
  scale factor \<open>s > 0\<close>, the result for \<open>s\<close> is \<open>sqrt s\<close> times the result for scale
  factor 1: the scale factor only multiplies the whitening matrix.
\<close>

theorem scale_factor_is_scalar:
  assumes "0 < s"
    and "calculate_prewhitening linalg_cholesky linalg_inv noise 1 = Inr W"
  shows "calculate_prewhitening linalg_cholesky linalg_inv noise s =
           Inr (W\<lparr>elems := (\<lambda>idx. map_option (\<lambda>z. complex_of_real (sqrt s) * z)
                                   (elems W idx))\<rparr>)"
proof -
  have scale: "times_float (times_float (np_finite a) (np_sqrt 2)) (np_sqrt s) =
      (times_float (times_float (np_finite a) (np_sqrt 2)) (np_sqrt 1))
        \<lparr>elems := (\<lambda>idx. map_option (\<lambda>z. complex_of_real (sqrt s) * z)
            (elems (times_float (times_float (np_finite a) (np_sqrt 2)) (np_sqrt 1)) idx))\<rparr>"
    for a :: "complex ndarray"
    unfolding times_float_twice
    using assms(1) by (simp add: np_sqrt_def mult.commute mult.left_commute)
  show ?thesis
    using assms(2)
    by (auto simp: calculate_prewhitening_def Let_def scale
        split: list.splits if_splits sum.splits)
qed

theorem scale_factor_is_scalar_witness:
  "(0::real) < 4 \<and>
   calculate_prewhitening cholesky_1x1 inv_1x1 two_sample_noise 1 =
     Inr \<lparr>shape = [1, 1], elems = (\<lambda>idx. Some (complex_of_real (sqrt 2) / 2))\<rparr> \<and>
   calculate_prewhitening cholesky_1x1 inv_1x1 two_sample_noise 4 =
     Inr \<lparr>shape = [1, 1], elems = (\<lambda>idx. Some (complex_of_real (sqrt 2)))\<rparr>"
proof -
  have sh: "shape two_sample_noise = [1, 2]"
    by (simp add: two_sample_noise_def)
  have one: "calculate_prewhitening cholesky_1x1 inv_1x1 two_sample_noise 1 =
     Inr \<lparr>shape = [1, 1], elems = (\<lambda>idx. Some (complex_of_real (sqrt 2) / 2))\<rparr>"
    by (simp add: calculate_prewhitening_unfold [OF sh] two_sample_spec)
  have "sqrt 4 = (2::real)"
    using real_sqrt_abs [of 2] by simp
  with scale_factor_is_scalar [of 4, OF _ one] one show ?thesis
    by simp
qed

section \<open>The power iteration against its specification\<close>











lemma upt_two: "[0..<2] = [0, 1]"
  by (simp add: numeral_2_eq_2)

lemma spec_norm_pair: "spec_norm [a, b] = sqrt ((cmod a)\<^sup>2 + (cmod b)\<^sup>2)"
  by (simp add: spec_norm_def)


lemma spec_iterate_fixed:
  assumes "spec_apply n R (spec_unit v0) = v0"
  shows "spec_iterate n R v0 k = (spec_unit v0, spec_norm v0)"
  by (induction k) (simp_all add: assms Let_def)

lemma spec_apply_pair:
  "spec_apply 2 R [a, b] = [R 0 0 * a + R 0 1 * b, R 1 0 * a + R 1 1 * b]"
  by (simp add: spec_apply_def upt_two sum_lessThan_two)

lemma spec_sums_pair:
  "spec_column_sums 2 R = [R 0 0 + R 1 0, R 0 1 + R 1 1]"
  "spec_row_sums 2 R = [R 0 0 + R 0 1, R 1 0 + R 1 1]"
  by (simp_all add: spec_column_sums_def spec_row_sums_def upt_two sum_lessThan_two)



lemma spec_product_norm:
  "spec_norm (spec_apply n R (fst (spec_iterate n R v0 k))) = snd (spec_iterate n R v0 (Suc k))"
  by (simp add: Let_def)



lemma coil_pair_entries:
  fixes y x smoothing
  defines "R \<equiv> matrix_entries (local_matrix (smoothed_covariance coil_pair_image smoothing) y x)"
  shows "R 0 0 = 1" and "R 0 1 = - \<i>" and "R 1 0 = \<i>" and "R 1 1 = 1"
  unfolding R_def matrix_entries_def by (rule coil_pair_matrix_entries)+

lemma coil_pair_row_iteration:
  assumes "R 0 0 = 1" and "R 0 1 = - \<i>" and "R 1 0 = \<i>" and "R 1 1 = 1"
  shows "spec_iterate 2 R (spec_row_sums 2 R) k = ([(1 - \<i>) / 2, (1 + \<i>) / 2], 2)"
proof -
  have r: "spec_row_sums 2 R = [1 - \<i>, 1 + \<i>]"
    using assms by (simp add: spec_sums_pair)
  have n: "spec_norm [1 - \<i>, 1 + \<i>] = 2"
    by (simp add: spec_norm_pair cmod_power2)
  have u: "spec_unit [1 - \<i>, 1 + \<i>] = [(1 - \<i>) / 2, (1 + \<i>) / 2]"
    unfolding spec_unit_def n by simp
  have "spec_apply 2 R [(1 - \<i>) / 2, (1 + \<i>) / 2] = [1 - \<i>, 1 + \<i>]"
    using assms by (simp add: spec_apply_pair complex_eq_iff)
  then have "spec_apply 2 R (spec_unit (spec_row_sums 2 R)) = spec_row_sums 2 R"
    by (simp only: r u)
  from spec_iterate_fixed [OF this] show ?thesis
    by (simp only: r u n)
qed

lemma coil_pair_eigenvectors:
  assumes "R 0 0 = 1" and "R 0 1 = - \<i>" and "R 1 0 = \<i>" and "R 1 1 = 1"
  shows "spec_apply 2 R [1, \<i>] = [2 * 1, 2 * \<i>]" and "spec_apply 2 R [1, - \<i>] = [0, 0]"
  using assms by (simp_all add: spec_apply_pair)






text \<open>
  C2 at the two-coil stack of C1. At pixel \<open>(0, 0)\<close> the local smoothed covariance is
  non-degenerate in the sense of the specification: its row-sum vector has norm 2,
  and so has each of the three products \<open>R*v\<close> of the power iteration that starts from
  the row sums. Yet both components of the sensitivity vector that
  \<open>calculate_csm_walsh\<close> returns there (smoothing 5, 3 iterations) are \<open>nan\<close>, so its
  norm across the coil axis is not 1.
\<close>

theorem coil_pair_unit_norm_fails:
  "let R = matrix_entries (local_matrix (smoothed_covariance coil_pair_image 5) 0 0);
       r = spec_row_sums 2 R;
       csm = fst (projr (calculate_csm_walsh coil_pair_image 5 3))
   in spec_norm r = 2 \<and>
      spec_norm (spec_apply 2 R (fst (spec_iterate 2 R r 0))) = 2 \<and>
      spec_norm (spec_apply 2 R (fst (spec_iterate 2 R r 1))) = 2 \<and>
      spec_norm (spec_apply 2 R (fst (spec_iterate 2 R r 2))) = 2 \<and>
      elems csm [0, 0, 0] = None \<and> elems csm [1, 0, 0] = None"
proof -
  let ?R = "matrix_entries (local_matrix (smoothed_covariance coil_pair_image 5) 0 0)"
  note it = coil_pair_row_iteration [OF coil_pair_entries [of 5 0 0]]
  have start: "spec_norm (spec_row_sums 2 ?R) = 2"
    using it [of 0] by simp
  have prod: "spec_norm (spec_apply 2 ?R (fst (spec_iterate 2 ?R (spec_row_sums 2 ?R) k))) = 2"
    for k
    by (subst spec_product_norm) (simp only: it snd_conv)
  have nan: "elems (fst (projr (calculate_csm_walsh coil_pair_image 5 3))) [c, 0, 0] = None"
    for c
    using calculate_csm_walsh_pixel(2) [OF coil_pair_dims(1) _ _ coil_pair_result [of 5 3], of 0 0 c]
      coil_pair_dims(3,4)
    by (simp add: coil_pair_power_method)
  from start prod [of 0] prod [of 1] prod [of 2] nan [of 0] nan [of 1] show ?thesis
    unfolding Let_def by blast
qed

end
